theory Spec2Isabelle
  imports Complex_Main
begin

section \<open>Data model\<close>

text \<open>
  The development embeds the Mongoose models \<^verbatim>\<open>models/Books.js\<close> (the book
  schema with \<^verbatim>\<open>updateAverageRating\<close>) and \<^verbatim>\<open>models/Review.js\<close> (the
  review schema with its unique index and its hooks) and the Express routes
  \<^verbatim>\<open>routes/books.js\<close> (the four handlers under \<^verbatim>\<open>/books\<close>),
  \<^verbatim>\<open>routes/reviews.js\<close> and \<^verbatim>\<open>routes/search.js\<close>.

  Modelling conventions:
  \<^item> an ObjectId is a natural number; a fresh one is drawn from a counter of the store;
  \<^item> a stored JavaScript Number is an exact rational (\<open>rat\<close>): sums, the mean and
    \<^verbatim>\<open>Math.round\<close> are computed without floating-point error; a path of type
    Number that holds \<^verbatim>\<open>null\<close> is \<open>None\<close>;
  \<^item> a page or limit parameter is the integer that the query string writes, and
    \<^verbatim>\<open>parseInt\<close> rounds it to the nearest Number (53 significant bits);
  \<^item> a string is a list of characters with codes below 256, and \<open>length\<close> stands
    for JavaScript's \<^verbatim>\<open>.length\<close>;
  \<^item> a collection is the list of its documents in insertion order, oldest first, so
    that \<^verbatim>\<open>sort({ createdAt: -1 })\<close> is list reversal;
  \<^item> \<^verbatim>\<open>populate\<close> only decorates the response with fields of the User
    collection and is left out; the authentication middleware is taken to have
    succeeded and to supply the acting user's id.
\<close>

type_synonym objectId = nat

record book_doc =
  book_id :: objectId
  title :: string
  author :: string
  genre :: string
  description :: string
  publishedYear :: rat
  isbn :: "string option"
  averageRating :: "rat option"
  totalReviews :: "rat option"
  addedBy :: objectId

record review_doc =
  review_id :: objectId
  rating :: rat
  comment :: string
  book :: objectId
  user :: objectId

record db =
  books :: "book_doc list"
  reviews :: "review_doc list"
  next_oid :: objectId

datatype mongo_error = ValidationError "string list" | DuplicateKey

section \<open>Strings and numbers\<close>

text \<open>
  The characters that \<^verbatim>\<open>String.prototype.trim\<close> and the validator's
  \<^verbatim>\<open>trim()\<close> strip, among the codes below 256: tab, line feed, vertical tab,
  form feed, carriage return, space and the no-break space U+00A0.
\<close>

definition is_space :: "char \<Rightarrow> bool" where
  "is_space c = (c = CHR '' '' \<or> c = CHR 0x09 \<or> c = CHR 0x0A \<or> c = CHR 0x0B
     \<or> c = CHR 0x0C \<or> c = CHR 0x0D \<or> c = CHR 0xA0)"

definition trim :: "string \<Rightarrow> string" where
  "trim s = rev (dropWhile is_space (rev (dropWhile is_space s)))"

definition is_digit :: "char \<Rightarrow> bool" where
  "is_digit c = (c \<in> set ''0123456789'')"

text \<open>\<^verbatim>\<open>isInt({ min, max })\<close> of express-validator on a numeric value.\<close>

definition isInt :: "rat \<Rightarrow> rat \<Rightarrow> rat \<Rightarrow> bool" where
  "isInt lo hi x = (of_int \<lfloor>x\<rfloor> = x \<and> lo \<le> x \<and> x \<le> hi)"

text \<open>\<^verbatim>\<open>Math.round\<close>: the nearest integer, a tie going up.\<close>

definition Math_round :: "rat \<Rightarrow> rat" where
  "Math_round x = of_int \<lfloor>x + 1 / 2\<rfloor>"

text \<open>
  The pattern \<^verbatim>\<open>/^(?=(?:\D*\d){10}(?:(?:\D*\d){3})?$)[\d-]+$/\<close>: only digits and
  hyphens, ten or thirteen digits in all, the last character a digit.
\<close>

definition isbn_match :: "string \<Rightarrow> bool" where
  "isbn_match s =
     (s \<noteq> [] \<and> list_all (\<lambda>c. is_digit c \<or> c = CHR ''-'') s
      \<and> (length (filter is_digit s) = 10 \<or> length (filter is_digit s) = 13)
      \<and> is_digit (last s))"

section \<open>models/Books.js\<close>

definition Book_findById :: "db \<Rightarrow> objectId \<Rightarrow> book_doc option" where
  "Book_findById s i = find (\<lambda>b. book_id b = i) (books s)"

text \<open>Apply \<open>f\<close> to the first element that satisfies \<open>p\<close> (an update of one document).\<close>

fun update_first :: "('a \<Rightarrow> bool) \<Rightarrow> ('a \<Rightarrow> 'a) \<Rightarrow> 'a list \<Rightarrow> 'a list" where
  "update_first p f [] = []"
| "update_first p f (x # xs) = (if p x then f x # xs else x # update_first p f xs)"

fun remove_first :: "('a \<Rightarrow> bool) \<Rightarrow> 'a list \<Rightarrow> 'a list" where
  "remove_first p [] = []"
| "remove_first p (x # xs) = (if p x then xs else x # remove_first p xs)"

text \<open>
  The \<^verbatim>\<open>min\<close> and \<^verbatim>\<open>max\<close> validators of a Number path; both accept
  \<^verbatim>\<open>null\<close>.
\<close>

definition min_ok :: "rat \<Rightarrow> rat option \<Rightarrow> bool" where
  "min_ok m v = (case v of None \<Rightarrow> True | Some x \<Rightarrow> m \<le> x)"

definition max_ok :: "rat \<Rightarrow> rat option \<Rightarrow> bool" where
  "max_ok m v = (case v of None \<Rightarrow> True | Some x \<Rightarrow> x \<le> m)"

text \<open>
  The validators of \<^verbatim>\<open>bookSchema\<close> on a new document. The setters
  (\<^verbatim>\<open>trim: true\<close>) have run when the document was built. \<open>yr\<close> is
  \<^verbatim>\<open>new Date().getFullYear()\<close>, read once when the module is loaded.
\<close>

definition bookSchema_validate :: "rat \<Rightarrow> book_doc \<Rightarrow> string list" where
  "bookSchema_validate yr b =
     (if title b = [] then [''Title is required'']
      else if 200 < length (title b) then [''Title cannot exceed 200 characters''] else [])
   @ (if author b = [] then [''Author is required'']
      else if 100 < length (author b) then [''Author name cannot exceed 100 characters''] else [])
   @ (if genre b = [] then [''Genre is required'']
      else if 50 < length (genre b) then [''Genre cannot exceed 50 characters''] else [])
   @ (if description b = [] then [''Description is required'']
      else if 2000 < length (description b) then [''Description cannot exceed 2000 characters'']
      else [])
   @ (if publishedYear b < 1000 then [''Published year must be at least 1000'']
      else if yr < publishedYear b then [''Published year cannot be in the future''] else [])
   @ (case isbn b of None \<Rightarrow> []
      | Some i \<Rightarrow> if isbn_match i then [] else [''Please enter a valid ISBN''])
   @ (if min_ok 0 (averageRating b) \<and> max_ok 5 (averageRating b) then []
      else [''averageRating''])
   @ (if min_ok 0 (totalReviews b) then [] else [''totalReviews''])"

text \<open>
  \<^verbatim>\<open>book.save()\<close> of a new document: validation, then the insert, which the
  unique sparse index on \<^verbatim>\<open>isbn\<close> refuses when another book has the same isbn.
\<close>

definition Book_save_new :: "rat \<Rightarrow> db \<Rightarrow> book_doc \<Rightarrow> mongo_error + db" where
  "Book_save_new yr s b =
     (if bookSchema_validate yr b \<noteq> [] then Inl (ValidationError (bookSchema_validate yr b))
      else if isbn b \<noteq> None \<and> list_ex (\<lambda>b'. isbn b' = isbn b) (books s) then Inl DuplicateKey
      else Inr (s\<lparr>books := books s @ [b], next_oid := Suc (next_oid s)\<rparr>))"

text \<open>
  \<^verbatim>\<open>Review.aggregate([{ $match: { book } }, { $group: { _id: null, averageRating:
  { $avg: '$rating' }, count: { $sum: 1 } } }])\<close>: no group, hence an empty result, when
  no review matches.
\<close>

definition Review_aggregate :: "db \<Rightarrow> objectId \<Rightarrow> (rat \<times> nat) list" where
  "Review_aggregate s bid =
     (let rs = filter (\<lambda>r. book r = bid) (reviews s)
      in if rs = [] then [] else [(sum_list (map rating rs) / of_nat (length rs), length rs)])"

text \<open>
  \<^verbatim>\<open>bookSchema.methods.updateAverageRating\<close>, called on the loaded document \<open>b\<close>.
  The final \<^verbatim>\<open>this.save()\<close> validates the paths that were modified and writes
  them to the stored document with this id.
\<close>

definition updateAverageRating :: "db \<Rightarrow> book_doc \<Rightarrow> mongo_error option \<times> db" where
  "updateAverageRating s b =
     (let stats = Review_aggregate s (book_id b);
          b' = (case stats of
                  (avg, count) # _ \<Rightarrow>
                    b\<lparr>averageRating := Some (Math_round (avg * 10) / 10),
                      totalReviews := Some (of_nat count)\<rparr>
                | [] \<Rightarrow> b\<lparr>averageRating := Some 0, totalReviews := Some 0\<rparr>);
          errs = (if averageRating b' \<noteq> averageRating b
                     \<and> \<not> (min_ok 0 (averageRating b') \<and> max_ok 5 (averageRating b'))
                  then [''averageRating''] else [])
               @ (if totalReviews b' \<noteq> totalReviews b \<and> \<not> min_ok 0 (totalReviews b')
                  then [''totalReviews''] else [])
      in if errs \<noteq> [] then (Some (ValidationError errs), s)
         else (None, s\<lparr>books := update_first (\<lambda>d. book_id d = book_id b)
                 (\<lambda>d. d\<lparr>averageRating := averageRating b', totalReviews := totalReviews b'\<rparr>)
                 (books s)\<rparr>))"

section \<open>models/Review.js\<close>

definition Review_findById :: "db \<Rightarrow> objectId \<Rightarrow> review_doc option" where
  "Review_findById s i = find (\<lambda>r. review_id r = i) (reviews s)"

definition Review_findOne :: "db \<Rightarrow> objectId \<Rightarrow> objectId \<Rightarrow> review_doc option" where
  "Review_findOne s bid uid = find (\<lambda>r. book r = bid \<and> user r = uid) (reviews s)"

text \<open>
  The validators of \<^verbatim>\<open>reviewSchema\<close>; the two flags say which paths are
  validated (all of them for a new document, the modified ones for a loaded one).
\<close>

definition reviewSchema_validate :: "bool \<Rightarrow> bool \<Rightarrow> review_doc \<Rightarrow> string list" where
  "reviewSchema_validate chk_rating chk_comment r =
     (if chk_rating \<and> rating r < 1 then [''Rating must be at least 1'']
      else if chk_rating \<and> 5 < rating r then [''Rating cannot exceed 5''] else [])
   @ (if chk_comment \<and> comment r = [] then [''Comment is required'']
      else if chk_comment \<and> length (comment r) < 10
        then [''Comment must be at least 10 characters'']
      else if chk_comment \<and> 1000 < length (comment r)
        then [''Comment cannot exceed 1000 characters'']
      else [])"

text \<open>\<^verbatim>\<open>reviewSchema.post('save', ...)\<close>, run after every \<^verbatim>\<open>review.save()\<close>.\<close>

definition reviewSchema_post_save :: "db \<Rightarrow> review_doc \<Rightarrow> mongo_error option \<times> db" where
  "reviewSchema_post_save s r =
     (case Book_findById s (book r) of
        None \<Rightarrow> (None, s)
      | Some b \<Rightarrow> updateAverageRating s b)"

text \<open>
  \<^verbatim>\<open>reviewSchema.post('remove', ...)\<close>: document middleware of
  \<^verbatim>\<open>doc.remove()\<close>. No route calls \<^verbatim>\<open>remove()\<close> on a review document.
\<close>

definition reviewSchema_post_remove :: "db \<Rightarrow> review_doc \<Rightarrow> mongo_error option \<times> db" where
  "reviewSchema_post_remove s r =
     (case Book_findById s (book r) of
        None \<Rightarrow> (None, s)
      | Some b \<Rightarrow> updateAverageRating s b)"

text \<open>
  \<^verbatim>\<open>review.save()\<close> of a new document: validation, the insert, which the unique
  index \<^verbatim>\<open>{ book: 1, user: 1 }\<close> refuses for a pair already present, then the
  post-save hook.
\<close>

definition Review_save_new :: "db \<Rightarrow> review_doc \<Rightarrow> mongo_error option \<times> db" where
  "Review_save_new s r =
     (if reviewSchema_validate True True r \<noteq> []
        then (Some (ValidationError (reviewSchema_validate True True r)), s)
      else if list_ex (\<lambda>r'. book r' = book r \<and> user r' = user r) (reviews s)
        then (Some DuplicateKey, s)
      else reviewSchema_post_save
             (s\<lparr>reviews := reviews s @ [r], next_oid := Suc (next_oid s)\<rparr>) r)"

text \<open>
  \<^verbatim>\<open>review.save()\<close> of the loaded document \<open>old\<close> after assignments that
  made it \<open>r\<close>: the modified paths are validated and written, then the post-save hook
  runs (it runs also when nothing was modified).
\<close>

definition Review_save :: "db \<Rightarrow> review_doc \<Rightarrow> review_doc \<Rightarrow> mongo_error option \<times> db" where
  "Review_save s old r =
     (let errs = reviewSchema_validate (rating r \<noteq> rating old) (comment r \<noteq> comment old) r
      in if errs \<noteq> [] then (Some (ValidationError errs), s)
         else reviewSchema_post_save
                (s\<lparr>reviews := update_first (\<lambda>d. review_id d = review_id r)
                     (\<lambda>d. d\<lparr>rating := rating r, comment := comment r\<rparr>) (reviews s)\<rparr>) r)"

text \<open>
  \<^verbatim>\<open>Review.findByIdAndDelete(id)\<close>: a query, which removes the document in the
  database and runs no document middleware (neither hook above).
\<close>

definition Review_findByIdAndDelete :: "db \<Rightarrow> objectId \<Rightarrow> db" where
  "Review_findByIdAndDelete s i =
     s\<lparr>reviews := remove_first (\<lambda>r. review_id r = i) (reviews s)\<rparr>"

section \<open>Requests and responses\<close>

record pagination =
  currentPage :: int
  totalPages :: int
  totalCount :: int
  hasNext :: bool
  hasPrev :: bool

datatype response =
    Errors "string list"
  | Error nat string
  | BookCreated book_doc
  | BookList "book_doc list" pagination
  | BookDetail book_doc "review_doc list" pagination
  | ReviewCreated review_doc
  | ReviewUpdated review_doc
  | ReviewDeleted
  | SearchResult string "review_doc list" pagination

fun status :: "response \<Rightarrow> nat" where
  "status (Errors _) = 400"
| "status (Error c _) = c"
| "status (BookCreated _) = 201"
| "status (BookList _ _) = 200"
| "status (BookDetail _ _ _) = 200"
| "status (ReviewCreated _) = 201"
| "status (ReviewUpdated _) = 200"
| "status ReviewDeleted = 200"
| "status (SearchResult _ _ _) = 200"

text \<open>
  The JSON body of \<^verbatim>\<open>POST /books\<close>. Besides the six documented fields it may
  carry any other key; of those, \<^verbatim>\<open>averageRating\<close> and \<^verbatim>\<open>totalReviews\<close>
  are paths of the schema and are kept by \<^verbatim>\<open>new Book({ ...req.body })\<close>. Such
  a key is absent, \<^verbatim>\<open>null\<close> or a number. (Any other JSON value is cast by
  Mongoose to a number or to \<^verbatim>\<open>null\<close>, or fails the cast, which ends in the
  handler's \<^verbatim>\<open>catch\<close> with nothing stored.)
\<close>

datatype json_number = Absent | Null | Num rat

record book_body =
  body_title :: "string option"
  body_author :: "string option"
  body_genre :: "string option"
  body_description :: "string option"
  body_publishedYear :: "rat option"
  body_isbn :: "string option"
  body_averageRating :: json_number
  body_totalReviews :: json_number

record review_body =
  body_rating :: "rat option"
  body_comment :: "string option"

record list_query =
  query_page :: "int option"
  query_limit :: "int option"
  query_author :: "string option"
  query_genre :: "string option"

record search_query =
  query_q :: "string option"
  search_page :: "int option"
  search_limit :: "int option"

text \<open>The string a validator sees for a field: the empty string when it is absent.\<close>

definition str_of :: "string option \<Rightarrow> string" where
  "str_of v = (case v of None \<Rightarrow> [] | Some x \<Rightarrow> x)"

text \<open>The number of binary digits of a natural number.\<close>

fun bitlen :: "nat \<Rightarrow> nat" where
  "bitlen n = (if n = 0 then 0 else Suc (bitlen (n div 2)))"

text \<open>
  The Number value of an integer: the integer itself up to \<open>2\<^sup>5\<^sup>3\<close> in absolute
  value, beyond that the nearest integer with 53 significant bits, a tie going to the
  even one; \<open>None\<close> stands for an infinite result.
\<close>

definition Number_of_int :: "int \<Rightarrow> int option" where
  "Number_of_int n =
     (if \<bar>n\<bar> \<le> 2 ^ 53 then Some n
      else
        let u = 2 ^ (bitlen (nat \<bar>n\<bar>) - 53);
            q = \<bar>n\<bar> div u;
            r = \<bar>n\<bar> mod u;
            q' = (if 2 * r < u then q else if u < 2 * r then q + 1
                  else if even q then q else q + 1)
        in if 2 ^ 1024 \<le> q' * u then None else Some (sgn n * (q' * u)))"

text \<open>
  \<^verbatim>\<open>parseInt(v) || d\<close>: the default for an absent parameter and for 0, otherwise
  the Number value of the integer written.
\<close>

definition parseInt_or :: "int option \<Rightarrow> int \<Rightarrow> int option" where
  "parseInt_or v d =
     (case v of
        None \<Rightarrow> Some d
      | Some n \<Rightarrow>
         (case Number_of_int n of
            None \<Rightarrow> None
          | Some m \<Rightarrow> if m = 0 then Some d else Some m))"

text \<open>\<^verbatim>\<open>(page - 1) * limit\<close> in Number arithmetic: each operation rounds.\<close>

definition skip_of :: "int option \<Rightarrow> int option \<Rightarrow> int option" where
  "skip_of page limit =
     (case page of
        None \<Rightarrow> None
      | Some p \<Rightarrow>
         (case limit of
            None \<Rightarrow> None
          | Some l \<Rightarrow>
             (case Number_of_int (p - 1) of
                None \<Rightarrow> None
              | Some a \<Rightarrow> Number_of_int (a * l))))"

text \<open>
  \<^verbatim>\<open>.skip(skip).limit(limit)\<close> on a sorted result. The server takes both as
  64-bit integers and rejects a negative skip (\<open>None\<close>); the driver reads a negative
  limit as its absolute value.
\<close>

definition skip_limit :: "'a list \<Rightarrow> int \<Rightarrow> int \<Rightarrow> 'a list option" where
  "skip_limit xs skip limit =
     (if skip < 0 \<or> 2 ^ 63 \<le> skip \<or> 2 ^ 63 \<le> \<bar>limit\<bar> then None
      else Some (take (nat \<bar>limit\<bar>) (drop (nat skip) xs)))"

text \<open>
  A page of a sorted result, or \<open>None\<close> when the query fails: an infinite page, limit
  or skip is no 64-bit integer either.
\<close>

definition find_page :: "'a list \<Rightarrow> int option \<Rightarrow> int option \<Rightarrow> ('a list \<times> int \<times> int) option" where
  "find_page xs page limit =
     (case page of
        None \<Rightarrow> None
      | Some p \<Rightarrow>
         (case limit of
            None \<Rightarrow> None
          | Some l \<Rightarrow>
             (case skip_of page limit of
                None \<Rightarrow> None
              | Some k \<Rightarrow>
                 (case skip_limit xs k l of
                    None \<Rightarrow> None
                  | Some ys \<Rightarrow> Some (ys, p, l)))))"

text \<open>The pagination block; the count of a collection is an exact Number.\<close>

definition paginate :: "int \<Rightarrow> int \<Rightarrow> nat \<Rightarrow> pagination" where
  "paginate page limit n =
     (let pages = \<lceil>(of_nat n :: rat) / of_int limit\<rceil>
      in \<lparr>currentPage = page, totalPages = pages, totalCount = int n,
          hasNext = (page < pages), hasPrev = (page > 1)\<rparr>)"

definition page_errors :: "int option \<Rightarrow> int option \<Rightarrow> string list" where
  "page_errors p l =
     (case p of None \<Rightarrow> []
      | Some n \<Rightarrow> if 1 \<le> n then [] else [''Page must be a positive integer''])
   @ (case l of None \<Rightarrow> []
      | Some n \<Rightarrow> if 1 \<le> n \<and> n \<le> 50 then [] else [''Limit must be between 1 and 50''])"

section \<open>routes/books.js\<close>

text \<open>The express-validator chain of \<^verbatim>\<open>POST /books\<close>; \<open>trim()\<close> sanitises
  the field before \<open>notEmpty()\<close> reads it.\<close>

definition post_books_errors :: "rat \<Rightarrow> book_body \<Rightarrow> string list" where
  "post_books_errors yr body =
     (if trim (str_of (body_title body)) = [] then [''Title is required''] else [])
   @ (if trim (str_of (body_author body)) = [] then [''Author is required''] else [])
   @ (if trim (str_of (body_genre body)) = [] then [''Genre is required''] else [])
   @ (if trim (str_of (body_description body)) = [] then [''Description is required''] else [])
   @ (case body_publishedYear body of
        None \<Rightarrow> [''Invalid published year'']
      | Some y \<Rightarrow> if isInt 1000 yr y then [] else [''Invalid published year''])
   @ (case body_isbn body of
        None \<Rightarrow> []
      | Some i \<Rightarrow> if isbn_match i then [] else [''Invalid ISBN format''])"

text \<open>
  \<^verbatim>\<open>POST /books\<close>. The document is built from the whole sanitised body
  (\<^verbatim>\<open>{ ...req.body, addedBy: req.user._id }\<close>); a path the body leaves out takes
  the schema's default, and a path the body sets to \<^verbatim>\<open>null\<close> stays
  \<^verbatim>\<open>null\<close>. Every exception of \<^verbatim>\<open>save()\<close> ends in the handler's
  \<^verbatim>\<open>catch\<close>, which answers 500.
\<close>

definition post_books :: "rat \<Rightarrow> db \<Rightarrow> objectId \<Rightarrow> book_body \<Rightarrow> response \<times> db" where
  "post_books yr s actor body =
     (if post_books_errors yr body \<noteq> [] then (Errors (post_books_errors yr body), s)
      else case body_publishedYear body of
        None \<Rightarrow> (Error 500 ''Server error while adding book'', s)
      | Some y \<Rightarrow>
         (let bookData = \<lparr>book_id = next_oid s,
                title = trim (trim (str_of (body_title body))),
                author = trim (trim (str_of (body_author body))),
                genre = trim (trim (str_of (body_genre body))),
                description = trim (trim (str_of (body_description body))),
                publishedYear = y,
                isbn = map_option trim (body_isbn body),
                averageRating = (case body_averageRating body of
                                   Absent \<Rightarrow> Some 0 | Null \<Rightarrow> None | Num a \<Rightarrow> Some a),
                totalReviews = (case body_totalReviews body of
                                  Absent \<Rightarrow> Some 0 | Null \<Rightarrow> None | Num t \<Rightarrow> Some t),
                addedBy = actor\<rparr>
          in case Book_save_new yr s bookData of
               Inl e \<Rightarrow> (Error 500 ''Server error while adding book'', s)
             | Inr s' \<Rightarrow> (BookCreated bookData, s')))"

text \<open>
  \<^verbatim>\<open>GET /books\<close>. \<open>rx pat v\<close> stands for the database's test
  \<^verbatim>\<open>{ $regex: pat, $options: 'i' }\<close> on the string \<open>v\<close>.
\<close>

definition get_books :: "(string \<Rightarrow> string \<Rightarrow> bool) \<Rightarrow> db \<Rightarrow> list_query \<Rightarrow> response" where
  "get_books rx s q =
     (if page_errors (query_page q) (query_limit q) \<noteq> []
        then Errors (page_errors (query_page q) (query_limit q))
      else
        let page = parseInt_or (query_page q) 1;
            limit = parseInt_or (query_limit q) 10;
            qa = map_option trim (query_author q);
            qg = map_option trim (query_genre q);
            filter_fn = (\<lambda>b.
              (case qa of None \<Rightarrow> True | Some a \<Rightarrow> if a = [] then True else rx a (author b))
              \<and> (case qg of None \<Rightarrow> True | Some g \<Rightarrow> if g = [] then True else rx g (genre b)));
            matching = filter filter_fn (rev (books s))
        in case find_page matching page limit of
             None \<Rightarrow> Error 500 ''Server error while fetching books''
           | Some (bs, p, l) \<Rightarrow> BookList bs (paginate p l (length matching)))"

text \<open>\<^verbatim>\<open>GET /books/:id\<close>; this route has no validation chain.\<close>

definition get_book_by_id :: "db \<Rightarrow> objectId \<Rightarrow> int option \<Rightarrow> int option \<Rightarrow> response" where
  "get_book_by_id s bid p l =
     (case Book_findById s bid of
        None \<Rightarrow> Error 404 ''Book not found''
      | Some b \<Rightarrow>
         (let page = parseInt_or p 1;
              limit = parseInt_or l 10;
              matching = filter (\<lambda>r. book r = book_id b) (rev (reviews s))
          in case find_page matching page limit of
               None \<Rightarrow> Error 500 ''Server error while fetching book details''
             | Some (rs, p', l') \<Rightarrow> BookDetail b rs (paginate p' l' (length matching))))"

definition post_book_reviews_errors :: "review_body \<Rightarrow> string list" where
  "post_book_reviews_errors body =
     (case body_rating body of
        None \<Rightarrow> [''Rating must be between 1 and 5'']
      | Some r \<Rightarrow> if isInt 1 5 r then [] else [''Rating must be between 1 and 5''])
   @ (if 10 \<le> length (trim (str_of (body_comment body)))
         \<and> length (trim (str_of (body_comment body))) \<le> 1000 then []
      else [''Comment must be between 10 and 1000 characters''])"

text \<open>\<^verbatim>\<open>POST /books/:id/reviews\<close>.\<close>

definition post_book_reviews ::
    "db \<Rightarrow> objectId \<Rightarrow> objectId \<Rightarrow> review_body \<Rightarrow> response \<times> db" where
  "post_book_reviews s actor bid body =
     (if post_book_reviews_errors body \<noteq> [] then (Errors (post_book_reviews_errors body), s)
      else case Book_findById s bid of
        None \<Rightarrow> (Error 404 ''Book not found'', s)
      | Some b \<Rightarrow>
         (case Review_findOne s bid actor of
            Some existingReview \<Rightarrow> (Error 400 ''You have already reviewed this book'', s)
          | None \<Rightarrow>
             (case body_rating body of
                None \<Rightarrow> (Error 500 ''Server error while submitting review'', s)
              | Some r \<Rightarrow>
                 (let review = \<lparr>review_id = next_oid s, rating = r,
                        comment = trim (trim (str_of (body_comment body))),
                        book = bid, user = actor\<rparr>
                  in case Review_save_new s review of
                       (Some e, s') \<Rightarrow> (Error 500 ''Server error while submitting review'', s')
                     | (None, s') \<Rightarrow> (ReviewCreated review, s')))))"

section \<open>routes/reviews.js\<close>

definition put_review_errors :: "review_body \<Rightarrow> string list" where
  "put_review_errors body =
     (case body_rating body of
        None \<Rightarrow> []
      | Some r \<Rightarrow> if isInt 1 5 r then [] else [''Rating must be between 1 and 5''])
   @ (case body_comment body of
        None \<Rightarrow> []
      | Some c \<Rightarrow> if 10 \<le> length (trim c) \<and> length (trim c) \<le> 1000 then []
                 else [''Comment must be between 10 and 1000 characters''])"

text \<open>\<^verbatim>\<open>PUT /reviews/:id\<close>.\<close>

definition put_review :: "db \<Rightarrow> objectId \<Rightarrow> objectId \<Rightarrow> review_body \<Rightarrow> response \<times> db" where
  "put_review s actor rid body =
     (if put_review_errors body \<noteq> [] then (Errors (put_review_errors body), s)
      else case Review_findById s rid of
        None \<Rightarrow> (Error 404 ''Review not found'', s)
      | Some review \<Rightarrow>
          if user review \<noteq> actor then (Error 403 ''You can only update your own reviews'', s)
          else
           (let r1 = (case body_rating body of None \<Rightarrow> review
                      | Some r \<Rightarrow> review\<lparr>rating := r\<rparr>);
                r2 = (case body_comment body of None \<Rightarrow> r1
                      | Some c \<Rightarrow> r1\<lparr>comment := trim (trim c)\<rparr>)
            in case Review_save s review r2 of
                 (Some e, s') \<Rightarrow> (Error 500 ''Server error while updating review'', s')
               | (None, s') \<Rightarrow> (ReviewUpdated r2, s')))"

text \<open>\<^verbatim>\<open>DELETE /reviews/:id\<close>.\<close>

definition delete_review :: "db \<Rightarrow> objectId \<Rightarrow> objectId \<Rightarrow> response \<times> db" where
  "delete_review s actor rid =
     (case Review_findById s rid of
        None \<Rightarrow> (Error 404 ''Review not found'', s)
      | Some review \<Rightarrow>
          if user review \<noteq> actor then (Error 403 ''You can only delete your own reviews'', s)
          else (ReviewDeleted, Review_findByIdAndDelete s rid))"

section \<open>routes/search.js\<close>

text \<open>
  In this file \<^verbatim>\<open>Book\<close> is bound to \<^verbatim>\<open>require('../models/Review')\<close>, so
  \<^verbatim>\<open>Book.find\<close> and \<^verbatim>\<open>Book.countDocuments\<close> read the reviews collection.
  A \<^verbatim>\<open>$regex\<close> condition holds of a document only when the path is there and is
  a string; a review has the single string path \<^verbatim>\<open>comment\<close>. The filter is
  taken to reach the database as it is written (Mongoose does not strip the paths
  \<^verbatim>\<open>title\<close> and \<^verbatim>\<open>author\<close>, which the review schema does not have), and
  \<^verbatim>\<open>populate('addedBy')\<close> to do nothing on documents without that path.
\<close>

definition review_path :: "string \<Rightarrow> review_doc \<Rightarrow> string option" where
  "review_path p r = (if p = ''comment'' then Some (comment r) else None)"

definition regex_path :: "(string \<Rightarrow> string \<Rightarrow> bool) \<Rightarrow> string \<Rightarrow> string option \<Rightarrow> bool" where
  "regex_path rx pat v = (case v of None \<Rightarrow> False | Some x \<Rightarrow> rx pat x)"

definition get_search :: "(string \<Rightarrow> string \<Rightarrow> bool) \<Rightarrow> db \<Rightarrow> search_query \<Rightarrow> response" where
  "get_search rx s q =
     (let errs = (if trim (str_of (query_q q)) = [] then [''Search query is required'']
                  else [])
               @ page_errors (search_page q) (search_limit q)
      in if errs \<noteq> [] then Errors errs
      else
        let searchQuery = trim (str_of (query_q q));
            page = parseInt_or (search_page q) 1;
            limit = parseInt_or (search_limit q) 10;
            searchFilter = (\<lambda>r. regex_path rx searchQuery (review_path ''title'' r)
                               \<or> regex_path rx searchQuery (review_path ''author'' r));
            matching = filter searchFilter (rev (reviews s))
        in case find_page matching page limit of
             None \<Rightarrow> Error 500 ''Server error while searching books''
           | Some (bs, p, l) \<Rightarrow> SearchResult searchQuery bs (paginate p l (length matching)))"

section \<open>Runs of the service\<close>

datatype request =
    AddBook objectId book_body
  | SubmitReview objectId objectId review_body
  | UpdateReview objectId objectId review_body
  | DeleteReview objectId objectId
  | Recompute objectId

text \<open>The store after a request that may write; \<open>Recompute\<close> is the aggregator run
  on the book with the given id, as the hooks run it.\<close>

fun step :: "rat \<Rightarrow> db \<Rightarrow> request \<Rightarrow> db" where
  "step yr s (AddBook actor body) = snd (post_books yr s actor body)"
| "step yr s (SubmitReview actor bid body) = snd (post_book_reviews s actor bid body)"
| "step yr s (UpdateReview actor rid body) = snd (put_review s actor rid body)"
| "step yr s (DeleteReview actor rid) = snd (delete_review s actor rid)"
| "step yr s (Recompute bid) =
     (case Book_findById s bid of None \<Rightarrow> s | Some b \<Rightarrow> snd (updateAverageRating s b))"

definition empty_db :: db where
  "empty_db = \<lparr>books = [], reviews = [], next_oid = 0\<rparr>"

inductive reachable :: "rat \<Rightarrow> db \<Rightarrow> bool" for yr :: rat where
  reachable_empty: "reachable yr empty_db"
| reachable_step: "reachable yr s \<Longrightarrow> reachable yr (step yr s rq)"

section \<open>Notions of the specification\<close>

text \<open>The arithmetic mean of a list of ratings.\<close>

definition mean :: "rat list \<Rightarrow> rat" where
  "mean xs = sum_list xs / of_nat (length xs)"

text \<open>
  \<open>y\<close> is \<open>x\<close> rounded to one decimal place: \<open>y\<close> has one decimal digit and
  is at most half a tenth away from \<open>x\<close> (either neighbour at a tie).
\<close>

definition rounds_to_one_decimal :: "rat \<Rightarrow> rat \<Rightarrow> bool" where
  "rounds_to_one_decimal x y = (of_int \<lfloor>y * 10\<rfloor> = y * 10 \<and> \<bar>y - x\<bar> \<le> 1 / 20)"

text \<open>Every stored review has a rating from 1 to 5.\<close>

definition ratings_ok :: "db \<Rightarrow> bool" where
  "ratings_ok s = list_all (\<lambda>r. 1 \<le> rating r \<and> rating r \<le> 5) (reviews s)"

text \<open>
  The bounds of the specification: every book has a number from 0 to 5 as its
  \<open>averageRating\<close> and a number not below 0 as its \<open>totalReviews\<close>, and every
  review has a rating from 1 to 5.
\<close>

definition number_within :: "rat \<Rightarrow> rat \<Rightarrow> rat option \<Rightarrow> bool" where
  "number_within lo hi v = (case v of None \<Rightarrow> False | Some x \<Rightarrow> lo \<le> x \<and> x \<le> hi)"

definition number_from :: "rat \<Rightarrow> rat option \<Rightarrow> bool" where
  "number_from lo v = (case v of None \<Rightarrow> False | Some x \<Rightarrow> lo \<le> x)"

definition bounds_ok :: "db \<Rightarrow> bool" where
  "bounds_ok s =
     (list_all (\<lambda>b. number_within 0 5 (averageRating b) \<and> number_from 0 (totalReviews b))
        (books s)
      \<and> ratings_ok s)"

text \<open>
  What the code keeps instead: a stored aggregate is \<^verbatim>\<open>null\<close> or within the
  bounds, and every review has a rating from 1 to 5.
\<close>

definition bounds_or_null :: "db \<Rightarrow> bool" where
  "bounds_or_null s =
     (list_all (\<lambda>b. min_ok 0 (averageRating b) \<and> max_ok 5 (averageRating b)
                    \<and> min_ok 0 (totalReviews b)) (books s)
      \<and> ratings_ok s)"

text \<open>A review of the book by the user is stored.\<close>

definition reviewed :: "db \<Rightarrow> objectId \<Rightarrow> objectId \<Rightarrow> bool" where
  "reviewed s bid uid = list_ex (\<lambda>r. book r = bid \<and> user r = uid) (reviews s)"



text \<open>The number of records and the pagination block of a response that has them.\<close>

fun page_of :: "response \<Rightarrow> (nat \<times> pagination) option" where
  "page_of (BookList bs pg) = Some (length bs, pg)"
| "page_of (BookDetail b rs pg) = Some (length rs, pg)"
| "page_of (SearchResult q rs pg) = Some (length rs, pg)"
| "page_of r = None"

text \<open>
  What the pagination block must say for the page \<open>page\<close> of size \<open>limit\<close> that
  holds \<open>n\<close> records: the number of pages is the total divided by the limit, rounded
  up; there is a next page when this one is not the last and a previous one when it is
  not the first; the page holds no more than \<open>limit\<close> records, namely those that
  remain after the earlier pages.
\<close>

definition page_shape :: "int \<Rightarrow> int \<Rightarrow> nat \<Rightarrow> pagination \<Rightarrow> bool" where
  "page_shape page limit n pg =
     (currentPage pg = page
      \<and> totalPages pg = \<lceil>(of_int (totalCount pg) :: rat) / of_int limit\<rceil>
      \<and> hasNext pg = (page < totalPages pg)
      \<and> hasPrev pg = (1 < page)
      \<and> int n \<le> limit
      \<and> int n = max 0 (min limit (totalCount pg - (page - 1) * limit)))"

text \<open>A list request and a search request with explicit page and limit and no filter.\<close>

definition list_query_of :: "int \<Rightarrow> int \<Rightarrow> list_query" where
  "list_query_of p l =
     \<lparr>query_page = Some p, query_limit = Some l, query_author = None, query_genre = None\<rparr>"

definition search_query_of :: "string \<Rightarrow> int \<Rightarrow> int \<Rightarrow> search_query" where
  "search_query_of q p l = \<lparr>query_q = Some q, search_page = Some p, search_limit = Some l\<rparr>"

text \<open>
  Case-insensitive substring test on ASCII letters, as the specification words the
  search; it is what the database's regular-expression test computes for a pattern of
  letters.
\<close>

definition to_lower :: "char \<Rightarrow> char" where
  "to_lower c =
     (case map_of (zip ''ABCDEFGHIJKLMNOPQRSTUVWXYZ'' ''abcdefghijklmnopqrstuvwxyz'') c of
        None \<Rightarrow> c | Some l \<Rightarrow> l)"

fun starts_with :: "string \<Rightarrow> string \<Rightarrow> bool" where
  "starts_with [] v = True"
| "starts_with (p # ps) [] = False"
| "starts_with (p # ps) (x # xs) = (p = x \<and> starts_with ps xs)"

fun contains :: "string \<Rightarrow> string \<Rightarrow> bool" where
  "contains p [] = (p = [])"
| "contains p (x # xs) = (starts_with p (x # xs) \<or> contains p xs)"

definition icontains :: "string \<Rightarrow> string \<Rightarrow> bool" where
  "icontains p v = contains (map to_lower p) (map to_lower v)"

section \<open>Example stores\<close>

definition mk_book ::
    "objectId \<Rightarrow> string \<Rightarrow> string \<Rightarrow> string option \<Rightarrow> rat \<Rightarrow> rat \<Rightarrow> book_doc" where
  "mk_book i t a n avg cnt =
     \<lparr>book_id = i, title = t, author = a, genre = ''SciFi'', description = ''A desert planet'',
      publishedYear = 1965, isbn = n, averageRating = Some avg, totalReviews = Some cnt,
      addedBy = 1\<rparr>"

definition mk_review :: "objectId \<Rightarrow> rat \<Rightarrow> objectId \<Rightarrow> objectId \<Rightarrow> review_doc" where
  "mk_review i r b u =
     \<lparr>review_id = i, rating = r, comment = ''A classic of the genre'', book = b, user = u\<rparr>"

definition db_three :: db where
  "db_three = \<lparr>books = [mk_book 0 ''Dune'' ''Herbert'' None 0 0],
     reviews = [mk_review 1 4 0 7, mk_review 2 4 0 8, mk_review 3 5 0 9], next_oid = 4\<rparr>"

definition body_padded :: review_body where
  "body_padded = \<lparr>body_rating = None, body_comment = Some ''  Better on the second read  ''\<rparr>"

definition body_review :: "rat \<Rightarrow> review_body" where
  "body_review r = \<lparr>body_rating = Some r, body_comment = Some ''A classic of the genre''\<rparr>"



definition db_25 :: db where
  "db_25 = \<lparr>books = map (\<lambda>i. mk_book i ''Dune'' ''Herbert'' None 0 0) [0..<25],
     reviews = [], next_oid = 25\<rparr>"

definition db_search :: db where
  "db_search = \<lparr>books = [mk_book 0 ''Dune II'' ''Herbert'' None 0 0,
       mk_book 1 ''Sand'' ''Duneworth'' None 0 0, mk_book 2 ''Atlas'' ''Rand'' None 0 0],
     reviews = [mk_review 3 4 0 7], next_oid = 4\<rparr>"

definition query_dune :: search_query where
  "query_dune = \<lparr>query_q = Some ''dune'', search_page = None, search_limit = None\<rparr>"

definition body_dune :: "string option \<Rightarrow> json_number \<Rightarrow> json_number \<Rightarrow> book_body" where
  "body_dune n avg cnt =
     \<lparr>body_title = Some ''Dune'', body_author = Some ''Herbert'', body_genre = Some ''SciFi'',
      body_description = Some ''A desert planet'', body_publishedYear = Some 1965,
      body_isbn = n, body_averageRating = avg, body_totalReviews = cnt\<rparr>"

definition db_isbn :: db where
  "db_isbn = \<lparr>books = [mk_book 0 ''Dune'' ''Herbert'' (Some ''0306406152'') 0 0],
     reviews = [], next_oid = 1\<rparr>"

definition db_two :: db where
  "db_two = \<lparr>books = [mk_book 0 ''Dune'' ''Herbert'' None 3 2],
     reviews = [mk_review 1 4 0 7, mk_review 2 2 0 8], next_oid = 3\<rparr>"

definition body_rating_six :: review_body where
  "body_rating_six = \<lparr>body_rating = Some 6, body_comment = None\<rparr>"

definition db_null :: db where
  "db_null = \<lparr>books = [(mk_book 0 ''Dune'' ''Herbert'' None 0 0)\<lparr>averageRating := None\<rparr>],
     reviews = [], next_oid = 1\<rparr>"

section \<open>Auxiliary lemmas\<close>

lemma find_Some_pred: "find p xs = Some x \<Longrightarrow> p x"
  by (induction xs) (auto split: if_splits)

lemma find_update_first:
  "find p xs = Some x \<Longrightarrow> p (f x) \<Longrightarrow> find p (update_first p f xs) = Some (f x)"
  by (induction xs) (auto split: if_splits)

lemma sum_list_bounds:
  fixes xs :: "rat list"
  shows "list_all (\<lambda>x. lo \<le> x \<and> x \<le> hi) xs \<Longrightarrow>
     of_nat (length xs) * lo \<le> sum_list xs \<and> sum_list xs \<le> of_nat (length xs) * hi"
  by (induction xs) (auto simp: algebra_simps)

lemma mean_bounds:
  fixes xs :: "rat list"
  assumes "xs \<noteq> []" "list_all (\<lambda>x. lo \<le> x \<and> x \<le> hi) xs"
  shows "lo \<le> mean xs \<and> mean xs \<le> hi"
proof -
  have n: "(0::rat) < of_nat (length xs)" using assms(1) by simp
  from sum_list_bounds[OF assms(2)] n show ?thesis
    unfolding mean_def by (simp add: pos_le_divide_eq pos_divide_le_eq mult.commute)
qed

lemma Math_round_rounds: "rounds_to_one_decimal x (Math_round (x * 10) / 10)"
proof -
  define k where "k = \<lfloor>x * 10 + 1 / 2\<rfloor>"
  have e: "rat_of_int k / 10 * 10 = rat_of_int k" by simp
  have lo: "rat_of_int k \<le> x * 10 + 1 / 2" unfolding k_def by (rule of_int_floor_le)
  have hi: "x * 10 + 1 / 2 < rat_of_int k + 1" unfolding k_def by linarith
  have "\<bar>rat_of_int k / 10 - x\<bar> \<le> 1 / 20"
    using lo hi unfolding abs_le_iff by (auto simp: field_simps)
  then show ?thesis
    unfolding rounds_to_one_decimal_def Math_round_def k_def[symmetric] e by simp
qed

lemma Math_round_bounds:
  assumes "1 \<le> x" "x \<le> 5"
  shows "0 \<le> Math_round (x * 10) / 10 \<and> Math_round (x * 10) / 10 \<le> 5"
proof -
  have "(10::int) \<le> \<lfloor>x * 10 + 1 / 2\<rfloor>" using assms by (simp add: le_floor_iff)
  moreover have "\<lfloor>x * 10 + 1 / 2\<rfloor> \<le> (50::int)" using assms by (simp add: floor_le_iff)
  ultimately show ?thesis unfolding Math_round_def
    by (simp add: pos_le_divide_eq pos_divide_le_eq)
qed

text \<open>On a store whose reviews of the book are within the schema's bounds, the
  aggregator's final save passes validation, and this is what it writes.\<close>

lemma updateAverageRating_ok:
  assumes f: "Book_findById s bid = Some b"
    and r: "list_all (\<lambda>r. 1 \<le> rating r \<and> rating r \<le> 5)
              (filter (\<lambda>r. book r = bid) (reviews s))"
  shows "updateAverageRating s b =
     (None, s\<lparr>books := update_first (\<lambda>d. book_id d = bid)
        (\<lambda>d. d\<lparr>averageRating :=
               Some (if filter (\<lambda>r. book r = bid) (reviews s) = [] then 0
                else Math_round
                       (mean (map rating (filter (\<lambda>r. book r = bid) (reviews s))) * 10) / 10),
             totalReviews := Some (of_nat (length (filter (\<lambda>r. book r = bid) (reviews s))))\<rparr>)
        (books s)\<rparr>)"
proof -
  have bid: "book_id b = bid" using find_Some_pred[OF f[unfolded Book_findById_def]] .
  let ?rs = "filter (\<lambda>r. book r = bid) (reviews s)"
  show ?thesis
  proof (cases "?rs = []")
    case True
    then show ?thesis
      by (simp add: updateAverageRating_def Review_aggregate_def bid min_ok_def max_ok_def)
  next
    case False
    have "list_all (\<lambda>x. 1 \<le> x \<and> x \<le> 5) (map rating ?rs)"
      using r by (simp add: list_all_iff)
    with False have "1 \<le> mean (map rating ?rs) \<and> mean (map rating ?rs) \<le> 5"
      by (intro mean_bounds) simp_all
    from Math_round_bounds[OF this[THEN conjunct1] this[THEN conjunct2]] False
    show ?thesis
      by (simp add: updateAverageRating_def Review_aggregate_def bid mean_def Let_def
          min_ok_def max_ok_def)
  qed
qed

lemma list_all_update_first:
  "list_all P xs \<Longrightarrow> (\<And>x. P x \<Longrightarrow> P (f x)) \<Longrightarrow> list_all P (update_first p f xs)"
  by (induction xs) auto

lemma list_all_remove_first: "list_all P xs \<Longrightarrow> list_all P (remove_first p xs)"
  by (induction xs) auto

lemma aggregate_bounds:
  assumes "list_all (\<lambda>r. 1 \<le> rating r \<and> rating r \<le> 5) (reviews s)"
    and "Review_aggregate s bid = (avg, n) # rest"
  shows "1 \<le> avg \<and> avg \<le> 5"
proof -
  let ?rs = "filter (\<lambda>r. book r = bid) (reviews s)"
  have ne: "?rs \<noteq> []" and avg: "avg = mean (map rating ?rs)"
    using assms(2) by (auto simp: Review_aggregate_def Let_def mean_def split: if_splits)
  have "list_all (\<lambda>x. 1 \<le> x \<and> x \<le> 5) (map rating ?rs)"
    using assms(1) by (simp add: list_all_iff)
  with ne show ?thesis unfolding avg by (intro mean_bounds) simp_all
qed

lemma keeps_updateAverageRating:
  assumes "bounds_or_null s"
  shows "bounds_or_null (snd (updateAverageRating s b))"
proof (cases "Review_aggregate s (book_id b)")
  case Nil
  then show ?thesis using assms
    by (auto simp: updateAverageRating_def bounds_or_null_def ratings_ok_def Let_def
        min_ok_def max_ok_def intro!: list_all_update_first)
next
  case (Cons st rest)
  obtain avg n where st: "st = (avg, n)" by (cases st)
  from aggregate_bounds[OF _ Cons[unfolded st]] assms
  have "1 \<le> avg \<and> avg \<le> 5" by (simp add: bounds_or_null_def ratings_ok_def)
  then have "0 \<le> Math_round (avg * 10) / 10 \<and> Math_round (avg * 10) / 10 \<le> 5"
    by (intro Math_round_bounds) simp_all
  then show ?thesis using assms Cons st
    by (auto simp: updateAverageRating_def bounds_or_null_def ratings_ok_def Let_def
        min_ok_def max_ok_def intro!: list_all_update_first)
qed

lemma keeps_post_save: "bounds_or_null s \<Longrightarrow> bounds_or_null (snd (reviewSchema_post_save s r))"
  by (simp add: reviewSchema_post_save_def keeps_updateAverageRating split: option.splits)

lemma keeps_post_books: "bounds_or_null s \<Longrightarrow> bounds_or_null (snd (post_books yr s actor body))"
  unfolding post_books_def Let_def
  by (auto simp: Book_save_new_def bookSchema_validate_def bounds_or_null_def ratings_ok_def
      split: option.splits sum.splits if_splits)

lemma keeps_Review_save_new:
  "bounds_or_null s \<Longrightarrow> bounds_or_null (snd (Review_save_new s r))"
proof -
  assume b: "bounds_or_null s"
  show ?thesis
  proof (cases "reviewSchema_validate True True r = [] \<and> \<not> list_ex (\<lambda>r'. book r' = book r \<and> user r' = user r) (reviews s)")
    case True
    then have "1 \<le> rating r \<and> rating r \<le> 5"
      by (auto simp: reviewSchema_validate_def split: if_splits)
    with b have "bounds_or_null (s\<lparr>reviews := reviews s @ [r], next_oid := Suc (next_oid s)\<rparr>)"
      by (simp add: bounds_or_null_def ratings_ok_def)
    from keeps_post_save[OF this] True show ?thesis by (simp add: Review_save_new_def)
  next
    case False
    then show ?thesis using b by (auto simp: Review_save_new_def)
  qed
qed

lemma snd_case_result:
  "snd (case p of (Some e, s') \<Rightarrow> (A, s') | (None, s') \<Rightarrow> (B, s')) = snd p"
  by (cases p; cases "fst p") auto

lemma keeps_post_book_reviews:
  "bounds_or_null s \<Longrightarrow> bounds_or_null (snd (post_book_reviews s actor bid body))"
  unfolding post_book_reviews_def Let_def
  by (simp add: snd_case_result keeps_Review_save_new split: option.splits)

lemma keeps_Review_save:
  assumes b: "bounds_or_null s" and r: "1 \<le> rating r \<and> rating r \<le> 5"
  shows "bounds_or_null (snd (Review_save s old r))"
proof -
  have "bounds_or_null (s\<lparr>reviews := update_first (\<lambda>d. review_id d = review_id r)
                     (\<lambda>d. d\<lparr>rating := rating r, comment := comment r\<rparr>) (reviews s)\<rparr>)"
    using b r by (auto simp: bounds_or_null_def ratings_ok_def intro!: list_all_update_first)
  from keeps_post_save[OF this] b show ?thesis
    by (simp add: Review_save_def Let_def)
qed

lemma find_Some_mem: "find p xs = Some x \<Longrightarrow> x \<in> set xs"
  by (induction xs) (auto split: if_splits)

lemma keeps_put_review:
  assumes b: "bounds_or_null s"
  shows "bounds_or_null (snd (put_review s actor rid body))"
proof (cases "put_review_errors body = []")
  case False
  then show ?thesis using b by (simp add: put_review_def)
next
  case ok: True
  show ?thesis
  proof (cases "Review_findById s rid")
    case None
    then show ?thesis using b ok by (simp add: put_review_def)
  next
    case (Some review)
    have "review \<in> set (reviews s)"
      using Some by (auto simp: Review_findById_def dest: find_Some_mem)
    then have old: "1 \<le> rating review \<and> rating review \<le> 5"
      using b by (auto simp: bounds_or_null_def ratings_ok_def list_all_iff)
    have new: "\<And>x. body_rating body = Some x \<Longrightarrow> 1 \<le> x \<and> x \<le> 5"
      using ok by (auto simp: put_review_errors_def isInt_def split: option.splits if_splits)
    let ?r1 = "case body_rating body of None \<Rightarrow> review | Some r \<Rightarrow> review\<lparr>rating := r\<rparr>"
    let ?r2 = "case body_comment body of None \<Rightarrow> ?r1 | Some c \<Rightarrow> ?r1\<lparr>comment := trim (trim c)\<rparr>"
    have "1 \<le> rating ?r2 \<and> rating ?r2 \<le> 5"
      using old new by (auto split: option.splits)
    from keeps_Review_save[OF b this, of review] show ?thesis
      using b ok Some by (simp add: put_review_def Let_def snd_case_result)
  qed
qed

lemma keeps_delete_review: "bounds_or_null s \<Longrightarrow> bounds_or_null (snd (delete_review s actor rid))"
  by (auto simp: delete_review_def Review_findByIdAndDelete_def bounds_or_null_def ratings_ok_def
      intro: list_all_remove_first split: option.splits)

lemma keeps_step: "bounds_or_null s \<Longrightarrow> bounds_or_null (step yr s rq)"
  by (cases rq)
    (simp_all add: keeps_post_books keeps_post_book_reviews keeps_put_review
      keeps_delete_review keeps_updateAverageRating split: option.splits)

lemma last_dropWhile: "dropWhile P xs \<noteq> [] \<Longrightarrow> last (dropWhile P xs) = last xs"
  by (induction xs) (auto split: if_splits)

lemma dropWhile_id: "xs = [] \<or> \<not> P (hd xs) \<Longrightarrow> dropWhile P xs = xs"
  by (simp add: dropWhile_eq_self_iff)

lemma trim_idem: "trim (trim s) = trim s"
proof -
  define t where "t = dropWhile is_space s"
  define u where "u = dropWhile is_space (rev t)"
  have t: "t = [] \<or> \<not> is_space (hd t)" unfolding t_def by (metis hd_dropWhile)
  have u: "u = [] \<or> \<not> is_space (hd u)" unfolding u_def by (metis hd_dropWhile)
  have tr: "trim s = rev u" by (simp add: trim_def t_def u_def)
  show ?thesis
  proof (cases "u = []")
    case True
    then show ?thesis by (simp add: tr) (simp add: trim_def)
  next
    case False
    then have tne: "t \<noteq> []" unfolding u_def by auto
    have "last u = last (rev t)" using False unfolding u_def by (rule last_dropWhile)
    then have "hd (rev u) = hd t" using False tne by (simp add: hd_rev last_rev)
    then have "dropWhile is_space (rev u) = rev u" using t tne False by (intro dropWhile_id) simp
    moreover have "dropWhile is_space u = u" using u by (rule dropWhile_id)
    ultimately show ?thesis by (simp add: tr) (simp add: trim_def)
  qed
qed

lemma trim_no_space: "list_all (\<lambda>c. \<not> is_space c) s \<Longrightarrow> trim s = s"
proof -
  assume a: "list_all (\<lambda>c. \<not> is_space c) s"
  then have "dropWhile is_space s = s" by (intro dropWhile_id) (cases s; simp)
  moreover have "rev s = [] \<or> \<not> is_space (hd (rev s))"
  proof (cases "s = []")
    case False
    then have "last s \<in> set s" by simp
    with a False show ?thesis by (simp add: hd_rev list_all_iff)
  qed simp
  then have "dropWhile is_space (rev s) = rev s" by (rule dropWhile_id)
  ultimately show ?thesis by (simp add: trim_def)
qed

lemma is_space_not_isbn_char: "is_space c \<Longrightarrow> \<not> (is_digit c \<or> c = CHR ''-'')"
  unfolding is_space_def by (elim disjE) (simp_all add: is_digit_def)

lemma isbn_match_trim: "isbn_match i \<Longrightarrow> trim i = i"
  by (rule trim_no_space) (auto simp: isbn_match_def list_all_iff dest: is_space_not_isbn_char)


lemma reviews_updateAverageRating: "reviews (snd (updateAverageRating s b)) = reviews s"
  by (simp add: updateAverageRating_def Let_def)

lemma next_oid_updateAverageRating: "next_oid (snd (updateAverageRating s b)) = next_oid s"
  by (simp add: updateAverageRating_def Let_def)


lemma reviews_post_save: "reviews (snd (reviewSchema_post_save s r)) = reviews s"
  by (simp add: reviewSchema_post_save_def reviews_updateAverageRating split: option.splits)


lemma post_save_ok:
  assumes "ratings_ok s"
  shows "fst (reviewSchema_post_save s r) = None"
proof (cases "Book_findById s (book r)")
  case None
  then show ?thesis by (simp add: reviewSchema_post_save_def)
next
  case (Some b)
  have "list_all (\<lambda>r. 1 \<le> rating r \<and> rating r \<le> 5) (filter (\<lambda>x. book x = book r) (reviews s))"
    using assms by (simp add: ratings_ok_def list_all_iff)
  from updateAverageRating_ok[OF Some this] Some show ?thesis
    by (simp add: reviewSchema_post_save_def)
qed

lemma case_result_None:
  "fst p = None \<Longrightarrow>
     (case p of (Some e, s') \<Rightarrow> (A, s') | (None, s') \<Rightarrow> (B, s')) = (B, snd p)"
  by (cases p) auto

lemma Review_save_ok:
  assumes b: "ratings_ok s" and f: "Review_findById s rid = Some old"
    and x: "1 \<le> x \<and> x \<le> 5"
    and c: "c = comment old \<or> (10 \<le> length c \<and> length c \<le> 1000)"
  shows "fst (Review_save s old (old\<lparr>rating := x, comment := c\<rparr>)) = None \<and>
         Review_findById (snd (Review_save s old (old\<lparr>rating := x, comment := c\<rparr>))) rid
           = Some (old\<lparr>rating := x, comment := c\<rparr>)"
proof -
  let ?r = "old\<lparr>rating := x, comment := c\<rparr>"
  let ?s2 = "s\<lparr>reviews := update_first (\<lambda>d. review_id d = review_id ?r)
                     (\<lambda>d. d\<lparr>rating := rating ?r, comment := comment ?r\<rparr>) (reviews s)\<rparr>"
  have rid: "review_id old = rid" using find_Some_pred[OF f[unfolded Review_findById_def]] .
  have v: "reviewSchema_validate (rating ?r \<noteq> rating old) (comment ?r \<noteq> comment old) ?r = []"
    using x c by (auto simp: reviewSchema_validate_def)
  have sv: "Review_save s old ?r = reviewSchema_post_save ?s2 ?r"
    unfolding Review_save_def Let_def v by simp
  have "ratings_ok ?s2"
    using b x by (auto simp: ratings_ok_def intro!: list_all_update_first)
  then have "fst (reviewSchema_post_save ?s2 ?r) = None" by (rule post_save_ok)
  moreover have "find (\<lambda>d. review_id d = rid) (reviews ?s2) = Some ?r"
    using find_update_first[OF f[unfolded Review_findById_def],
        of "\<lambda>d. d\<lparr>rating := x, comment := c\<rparr>"] rid
    by simp
  ultimately show ?thesis
    unfolding sv by (simp add: Review_findById_def reviews_post_save)
qed

lemma put_review_owner:
  assumes "Review_findById s rid = Some r" and "user r = actor"
    and "put_review_errors body = []" and "ratings_ok s"
  shows "let r' = r\<lparr>rating := (case body_rating body of None \<Rightarrow> rating r | Some x \<Rightarrow> x),
                     comment := (case body_comment body of None \<Rightarrow> comment r
                                 | Some c \<Rightarrow> trim c)\<rparr>
         in fst (put_review s actor rid body) = ReviewUpdated r'
            \<and> Review_findById (snd (put_review s actor rid body)) rid = Some r'
            \<and> review_id r' = review_id r \<and> book r' = book r \<and> user r' = user r"
proof -
  let ?x = "case body_rating body of None \<Rightarrow> rating r | Some x \<Rightarrow> x"
  let ?c = "case body_comment body of None \<Rightarrow> comment r | Some c \<Rightarrow> trim c"
  have "r \<in> set (reviews s)"
    using assms(1) by (auto simp: Review_findById_def dest: find_Some_mem)
  then have old: "1 \<le> rating r \<and> rating r \<le> 5"
    using assms(4) by (auto simp: ratings_ok_def list_all_iff)
  have x: "1 \<le> ?x \<and> ?x \<le> 5"
    using assms(3) old
    by (auto simp: put_review_errors_def isInt_def split: option.splits if_splits)
  have c: "?c = comment r \<or> (10 \<le> length ?c \<and> length ?c \<le> 1000)"
    using assms(3) by (auto simp: put_review_errors_def split: option.splits if_splits)
  note ok = Review_save_ok[OF assms(4) assms(1) x c]
  have "put_review s actor rid body
          = (ReviewUpdated (r\<lparr>rating := ?x, comment := ?c\<rparr>),
             snd (Review_save s r (r\<lparr>rating := ?x, comment := ?c\<rparr>)))"
    using assms(1,2,3) ok
    by (cases "body_rating body"; cases "body_comment body")
      (simp_all add: put_review_def Let_def trim_idem case_result_None)
  with ok show ?thesis by (simp add: Let_def)
qed

lemma find_append_hit: "p x \<Longrightarrow> find p (xs @ [x]) \<noteq> None"
  by (induction xs) auto

lemma trim_padded: "trim ''  Better on the second read  '' = ''Better on the second read''"
  by (simp add: trim_def is_space_def)

lemma trim_better: "trim ''Better on the second read'' = ''Better on the second read''"
  by (simp add: trim_def is_space_def)

text \<open>The no-break space is stripped like the space.\<close>

lemma trim_no_break_space: "trim [CHR 0xA0, CHR ''a'', CHR ''b'', CHR 0xA0] = ''ab''"
  by (simp add: trim_def is_space_def)

lemma trim_classic: "trim ''A classic of the genre'' = ''A classic of the genre''"
  by (simp add: trim_def is_space_def)



lemma Number_of_int_exact: "\<bar>n\<bar> \<le> 2 ^ 53 \<Longrightarrow> Number_of_int n = Some n"
  by (simp add: Number_of_int_def)

text \<open>The first integer that is not a Number is rounded to its even neighbour.\<close>

lemma bitlen_2_53_1: "bitlen 9007199254740993 = 54"
  by simp

lemma Number_of_int_rounds: "Number_of_int 9007199254740993 = Some 9007199254740992"
  by (simp add: Number_of_int_def bitlen_2_53_1 Let_def del: bitlen.simps)

lemma length_take_drop_int:
  "0 \<le> k \<Longrightarrow> 1 \<le> l \<Longrightarrow>
     int (length (take (nat \<bar>l\<bar>) (drop (nat k) m))) = max 0 (min l (int (length m) - k))"
  by (simp add: min_def max_def) arith

lemma find_page_exact:
  assumes "1 \<le> page" "page \<le> 2 ^ 53" "1 \<le> limit" "limit \<le> 50"
    and "(page - 1) * limit \<le> 2 ^ 53"
  shows "\<exists>xs. find_page m (Some page) (Some limit) = Some (xs, page, limit)
     \<and> page_shape page limit (length xs) (paginate page limit (length m))
     \<and> totalCount (paginate page limit (length m)) = int (length m)
     \<and> int (length xs) = max 0 (min limit (int (length m) - (page - 1) * limit))"
proof -
  define k where "k = (page - 1) * limit"
  have sk: "0 \<le> k" unfolding k_def using assms by simp
  have kb: "k \<le> 2 ^ 53" unfolding k_def using assms by simp
  have "Number_of_int (page - 1) = Some (page - 1)"
    using assms(1,2) by (intro Number_of_int_exact) simp
  moreover have "Number_of_int k = Some k"
    using sk kb by (intro Number_of_int_exact) simp
  ultimately have so: "skip_of (Some page) (Some limit) = Some k"
    by (simp add: skip_of_def k_def)
  have len: "int (length (take (nat \<bar>limit\<bar>) (drop (nat k) m)))
          = max 0 (min limit (int (length m) - k))"
    by (rule length_take_drop_int[OF sk assms(3)])
  have sl: "skip_limit m k limit = Some (take (nat \<bar>limit\<bar>) (drop (nat k) m))"
    using sk kb assms(3,4) by (simp add: skip_limit_def)
  have fp: "find_page m (Some page) (Some limit)
          = Some (take (nat \<bar>limit\<bar>) (drop (nat k) m), page, limit)"
    by (simp add: find_page_def so sl)
  show ?thesis
    unfolding fp using len assms(3)
    by (simp add: page_shape_def paginate_def Let_def k_def[symmetric])
qed

lemma page_errors_ok:
  "1 \<le> page \<Longrightarrow> 1 \<le> limit \<Longrightarrow> limit \<le> 50 \<Longrightarrow> page_errors (Some page) (Some limit) = []"
  by (simp add: page_errors_def)

lemma parseInt_or_pos: "1 \<le> n \<Longrightarrow> n \<le> 2 ^ 53 \<Longrightarrow> parseInt_or (Some n) d = Some n"
  by (simp add: parseInt_or_def Number_of_int_exact)

text \<open>
  The list handler, for a page within the integers that are Numbers: the pagination
  block has the shape that the specification gives, over the books that match.
\<close>

lemma get_books_page:
  assumes "1 \<le> page" "page \<le> 2 ^ 53" "1 \<le> limit" "limit \<le> 50"
    and "(page - 1) * limit \<le> 2 ^ 53"
    and "query_page q = Some page" "query_limit q = Some limit"
  shows "\<exists>bs pg. get_books rx s q = BookList bs pg \<and> page_shape page limit (length bs) pg"
proof -
  let ?m = "filter (\<lambda>b.
              (case map_option trim (query_author q) of None \<Rightarrow> True
               | Some a \<Rightarrow> if a = [] then True else rx a (author b))
              \<and> (case map_option trim (query_genre q) of None \<Rightarrow> True
                  | Some g \<Rightarrow> if g = [] then True else rx g (genre b))) (rev (books s))"
  have l: "limit \<le> 2 ^ 53" using assms(4) by simp
  from find_page_exact[OF assms(1-5), of ?m] obtain xs where
    "find_page ?m (Some page) (Some limit) = Some (xs, page, limit)"
    "page_shape page limit (length xs) (paginate page limit (length ?m))" by blast
  then show ?thesis
    using assms l by (simp add: get_books_def page_errors_ok parseInt_or_pos Let_def)
qed

lemma get_books_unfiltered:
  assumes "1 \<le> page" "page \<le> 2 ^ 53" "1 \<le> limit" "limit \<le> 50"
    and "(page - 1) * limit \<le> 2 ^ 53"
  shows "\<exists>bs pg. get_books rx s (list_query_of page limit) = BookList bs pg
     \<and> page_shape page limit (length bs) pg
     \<and> totalCount pg = int (length (books s))
     \<and> int (length bs) = max 0 (min limit (int (length (books s)) - (page - 1) * limit))"
proof -
  have l: "limit \<le> 2 ^ 53" using assms(4) by simp
  from find_page_exact[OF assms, of "rev (books s)"] obtain xs where
    "find_page (rev (books s)) (Some page) (Some limit) = Some (xs, page, limit)"
    "page_shape page limit (length xs) (paginate page limit (length (rev (books s))))"
    "totalCount (paginate page limit (length (rev (books s)))) = int (length (rev (books s)))"
    "int (length xs) = max 0 (min limit (int (length (rev (books s))) - (page - 1) * limit))"
    by blast
  then show ?thesis
    using assms l
    by (simp add: get_books_def list_query_of_def page_errors_ok parseInt_or_pos Let_def)
qed

text \<open>Whatever the store and the query, the search handler returns no record and
  counts none.\<close>

lemma get_search_no_record:
  "get_search rx s q = SearchResult x rs pg \<Longrightarrow> rs = [] \<and> totalCount pg = 0"
  by (auto simp: get_search_def Let_def regex_path_def review_path_def find_page_def
      skip_limit_def paginate_def split: if_splits option.splits)

lemma trim_dune: "trim ''dune'' = ''dune''"
  by (simp add: trim_def is_space_def)

lemma icontains_dune:
  "icontains ''dune'' ''Dune II''" "icontains ''dune'' ''Duneworth''"
  "\<not> icontains ''dune'' ''Atlas''" "\<not> icontains ''dune'' ''Herbert''"
  "\<not> icontains ''dune'' ''Sand''" "\<not> icontains ''dune'' ''Rand''"
  by (simp_all add: icontains_def to_lower_def)

lemma Math_round_numeral: "Math_round (numeral n) = numeral n"
  by (simp add: Math_round_def floor_eq_iff)

lemma trim_fields:
  "trim ''Dune'' = ''Dune''" "trim ''Herbert'' = ''Herbert''" "trim ''SciFi'' = ''SciFi''"
  "trim ''A desert planet'' = ''A desert planet''" "trim ''0306406152'' = ''0306406152''"
  by (simp_all add: trim_def is_space_def)

lemma isbn_match_example: "isbn_match ''0306406152''"
  by (simp add: isbn_match_def is_digit_def)

lemma body_dune_fields:
  "body_title (body_dune n avg cnt) = Some ''Dune''"
  "body_author (body_dune n avg cnt) = Some ''Herbert''"
  "body_genre (body_dune n avg cnt) = Some ''SciFi''"
  "body_description (body_dune n avg cnt) = Some ''A desert planet''"
  "body_publishedYear (body_dune n avg cnt) = Some 1965"
  "body_isbn (body_dune n avg cnt) = n"
  "body_averageRating (body_dune n avg cnt) = avg"
  "body_totalReviews (body_dune n avg cnt) = cnt"
  by (simp_all add: body_dune_def)

lemma post_books_errors_dune:
  "post_books_errors 2025 (body_dune None avg cnt) = []"
  "post_books_errors 2025 (body_dune (Some ''0306406152'') avg cnt) = []"
  by (simp_all add: post_books_errors_def body_dune_fields str_of_def trim_fields isInt_def
      isbn_match_example)

lemma db_two_scenario:
  "step 2025 (step 2025 (step 2025 empty_db (AddBook 1 (body_dune None Absent Absent)))
      (SubmitReview 7 0 (body_review 4))) (SubmitReview 8 0 (body_review 2)) = db_two"
  by (simp add: post_books_def post_books_errors_dune Book_save_new_def bookSchema_validate_def
      body_dune_fields str_of_def trim_fields empty_db_def mk_book_def db_two_def
      post_book_reviews_def post_book_reviews_errors_def body_review_def isInt_def
      trim_classic mk_review_def Book_findById_def Review_findOne_def Review_save_new_def
      reviewSchema_validate_def reviewSchema_post_save_def updateAverageRating_def
      Review_aggregate_def Math_round_numeral min_ok_def max_ok_def Let_def)















text \<open>Deleting by id takes out the first review with that id and nothing else.\<close>

lemma remove_first_split:
  "find p xs = Some r \<Longrightarrow>
     \<exists>ys zs. xs = ys @ r # zs \<and> list_all (\<lambda>x. \<not> p x) ys \<and> remove_first p xs = ys @ zs"
proof (induction xs)
  case Nil
  then show ?case by simp
next
  case (Cons x xs)
  show ?case
  proof (cases "p x")
    case True
    with Cons.prems have "x = r" by simp
    with True show ?thesis by (intro exI[of _ "[]"] exI[of _ xs]) simp
  next
    case False
    with Cons obtain ys zs where
      "xs = ys @ r # zs" "list_all (\<lambda>x. \<not> p x) ys" "remove_first p xs = ys @ zs" by auto
    with False show ?thesis by (intro exI[of _ "x # ys"] exI[of _ zs]) simp
  qed
qed

lemma reachable_bounds_or_null: "reachable yr s \<Longrightarrow> bounds_or_null s"
  by (induction rule: reachable.induct)
    (simp_all add: keeps_step, simp add: bounds_or_null_def ratings_ok_def empty_db_def)

section \<open>The rating aggregator\<close>

text \<open>
  Claim C5. Let \<open>b\<close> be the stored book with id \<open>bid\<close>, and let every review that
  references it carry a rating from 1 to 5, as the review schema requires. Then
  \<^verbatim>\<open>updateAverageRating\<close> raises no error, leaves the reviews as they are, and the
  stored book afterwards is \<open>b\<close> with \<open>totalReviews\<close> the number of reviews that
  reference it and \<open>averageRating\<close> the arithmetic mean of their ratings rounded to
  one decimal place; with no such review both are 0.
\<close>

theorem updateAverageRating_rounded_mean:
  assumes "Book_findById s bid = Some b"
    and "list_all (\<lambda>r. 1 \<le> rating r \<and> rating r \<le> 5)
           (filter (\<lambda>r. book r = bid) (reviews s))"
  shows "let rs = filter (\<lambda>r. book r = bid) (reviews s);
             s' = snd (updateAverageRating s b)
         in fst (updateAverageRating s b) = None \<and> reviews s' = reviews s \<and>
            (\<exists>avg. Book_findById s' bid
                      = Some (b\<lparr>averageRating := Some avg,
                                totalReviews := Some (of_nat (length rs))\<rparr>)
                \<and> (if rs = [] then avg = 0
                    else rounds_to_one_decimal (mean (map rating rs)) avg))"
proof -
  have bid: "book_id b = bid" using find_Some_pred[OF assms(1)[unfolded Book_findById_def]] .
  show ?thesis
    unfolding updateAverageRating_ok[OF assms] Let_def
    using bid
    by (auto simp: Book_findById_def Math_round_rounds
          find_update_first[OF assms(1)[unfolded Book_findById_def]])
qed

theorem updateAverageRating_rounded_mean_witness:
  "fst (updateAverageRating db_three (mk_book 0 ''Dune'' ''Herbert'' None 0 0)) = None \<and>
   (\<exists>avg. Book_findById
            (snd (updateAverageRating db_three (mk_book 0 ''Dune'' ''Herbert'' None 0 0))) 0
       = Some (mk_book 0 ''Dune'' ''Herbert'' None avg 3) \<and> rounds_to_one_decimal (13 / 3) avg)"
  using updateAverageRating_rounded_mean[of db_three 0 "mk_book 0 ''Dune'' ''Herbert'' None 0 0"]
  by (simp add: db_three_def mk_book_def mk_review_def Book_findById_def mean_def Let_def)

section \<open>Bounds of the stored numbers\<close>

text \<open>
  Claim C10, evaluated on the code. \<^verbatim>\<open>POST /books\<close> on the empty store with a
  valid body that carries in addition \<^verbatim>\<open>averageRating: null\<close> creates a book whose
  \<open>averageRating\<close> is \<^verbatim>\<open>null\<close>: the default applies to an absent path only, and
  the \<^verbatim>\<open>min\<close> and \<^verbatim>\<open>max\<close> validators accept \<^verbatim>\<open>null\<close>. The store
  that results is reachable and is not within the bounds of the specification, which ask
  for a number from 0 to 5.
\<close>

theorem post_books_stores_null:
  "post_books_errors 2025 (body_dune None Null Absent) = []
   \<and> post_books 2025 empty_db 1 (body_dune None Null Absent)
       = (BookCreated ((mk_book 0 ''Dune'' ''Herbert'' None 0 0)\<lparr>averageRating := None\<rparr>),
          db_null)
   \<and> map averageRating (books db_null) = [None]
   \<and> reachable 2025 db_null
   \<and> \<not> bounds_ok db_null"
proof -
  have p: "post_books 2025 empty_db 1 (body_dune None Null Absent)
       = (BookCreated ((mk_book 0 ''Dune'' ''Herbert'' None 0 0)\<lparr>averageRating := None\<rparr>),
          db_null)"
    by (simp add: post_books_def post_books_errors_dune Book_save_new_def
        bookSchema_validate_def body_dune_fields str_of_def trim_fields empty_db_def
        mk_book_def db_null_def min_ok_def max_ok_def Let_def)
  have st: "step 2025 empty_db (AddBook 1 (body_dune None Null Absent)) = db_null"
    by (simp only: step.simps p snd_conv)
  have "reachable 2025 (step 2025 empty_db (AddBook 1 (body_dune None Null Absent)))"
    by (rule reachable_step[OF reachable_empty])
  then have "reachable 2025 db_null" unfolding st .
  moreover have "\<not> bounds_ok db_null"
    by (simp add: bounds_ok_def db_null_def mk_book_def number_within_def)
  moreover have "map averageRating (books db_null) = [None]"
    by (simp add: db_null_def mk_book_def)
  ultimately show ?thesis using p by (simp add: post_books_errors_dune)
qed

section \<open>One review per user and book\<close>



section \<open>Ownership of reviews\<close>

text \<open>
  Claim C9, as amended. Let the review \<open>rid\<close> exist, with \<open>r\<close> the stored
  document, and let the acting user not be the owner. Then the delete is answered 403, the update with a body that passes
  the validation chain is answered 403, and the update with a body that fails it is
  answered 400 with the validation errors; each time the store is returned unchanged,
  the review and the book's aggregates included. The same calls by the owner succeed:
  the update with a valid body, on a store whose reviews have ratings from 1 to 5, is
  answered 200 and stores the provided fields, and the delete is answered 200 and takes
  exactly the review \<open>r\<close> out of the store, leaving the books as they are.
\<close>

theorem non_owner_forbidden:
  assumes "Review_findById s rid = Some r" and "actor \<noteq> user r"
  shows "delete_review s actor rid = (Error 403 ''You can only delete your own reviews'', s)
       \<and> (put_review_errors body = [] \<longrightarrow>
            put_review s actor rid body
              = (Error 403 ''You can only update your own reviews'', s))
       \<and> (put_review_errors body \<noteq> [] \<longrightarrow>
            put_review s actor rid body = (Errors (put_review_errors body), s))
       \<and> (put_review_errors body = [] \<and> ratings_ok s \<longrightarrow>
            (let r' = r\<lparr>rating := (case body_rating body of None \<Rightarrow> rating r | Some x \<Rightarrow> x),
                         comment := (case body_comment body of None \<Rightarrow> comment r
                                     | Some c \<Rightarrow> trim c)\<rparr>
             in fst (put_review s (user r) rid body) = ReviewUpdated r'
                \<and> status (fst (put_review s (user r) rid body)) = 200
                \<and> Review_findById (snd (put_review s (user r) rid body)) rid = Some r'))
       \<and> fst (delete_review s (user r) rid) = ReviewDeleted
       \<and> status (fst (delete_review s (user r) rid)) = 200
       \<and> books (snd (delete_review s (user r) rid)) = books s
       \<and> (\<exists>ys zs. reviews s = ys @ r # zs
              \<and> list_all (\<lambda>x. review_id x \<noteq> rid) ys
              \<and> reviews (snd (delete_review s (user r) rid)) = ys @ zs)"
proof -
  have upd: "put_review_errors body = [] \<and> ratings_ok s \<longrightarrow>
            (let r' = r\<lparr>rating := (case body_rating body of None \<Rightarrow> rating r | Some x \<Rightarrow> x),
                         comment := (case body_comment body of None \<Rightarrow> comment r
                                     | Some c \<Rightarrow> trim c)\<rparr>
             in fst (put_review s (user r) rid body) = ReviewUpdated r'
                \<and> status (fst (put_review s (user r) rid body)) = 200
                \<and> Review_findById (snd (put_review s (user r) rid body)) rid = Some r')"
  proof
    assume "put_review_errors body = [] \<and> ratings_ok s"
    then have v: "put_review_errors body = []" and ok: "ratings_ok s" by simp_all
    from put_review_owner[OF assms(1) refl v ok] show "(let r' = r\<lparr>rating := (case body_rating body of None \<Rightarrow> rating r | Some x \<Rightarrow> x),
                         comment := (case body_comment body of None \<Rightarrow> comment r
                                     | Some c \<Rightarrow> trim c)\<rparr>
             in fst (put_review s (user r) rid body) = ReviewUpdated r'
                \<and> status (fst (put_review s (user r) rid body)) = 200
                \<and> Review_findById (snd (put_review s (user r) rid body)) rid = Some r')"
      by (simp add: Let_def)
  qed
  from remove_first_split[OF assms(1)[unfolded Review_findById_def]] obtain ys zs where
    "reviews s = ys @ r # zs" "list_all (\<lambda>x. review_id x \<noteq> rid) ys"
    "remove_first (\<lambda>x. review_id x = rid) (reviews s) = ys @ zs" by blast
  then have del: "\<exists>ys zs. reviews s = ys @ r # zs
              \<and> list_all (\<lambda>x. review_id x \<noteq> rid) ys
              \<and> reviews (snd (delete_review s (user r) rid)) = ys @ zs"
    using assms(1) by (auto simp: delete_review_def Review_findByIdAndDelete_def)
  have rest: "delete_review s actor rid = (Error 403 ''You can only delete your own reviews'', s)
       \<and> (put_review_errors body = [] \<longrightarrow>
            put_review s actor rid body
              = (Error 403 ''You can only update your own reviews'', s))
       \<and> (put_review_errors body \<noteq> [] \<longrightarrow>
            put_review s actor rid body = (Errors (put_review_errors body), s))
       \<and> fst (delete_review s (user r) rid) = ReviewDeleted
       \<and> status (fst (delete_review s (user r) rid)) = 200
       \<and> books (snd (delete_review s (user r) rid)) = books s"
    using assms by (simp add: put_review_def delete_review_def Review_findByIdAndDelete_def)
  from rest upd del show ?thesis by blast
qed

theorem non_owner_forbidden_witness:
  "put_review db_three 8 1 (body_review 2)
     = (Error 403 ''You can only update your own reviews'', db_three)
   \<and> delete_review db_three 8 1
     = (Error 403 ''You can only delete your own reviews'', db_three)
   \<and> fst (put_review db_three 7 1 (body_review 2)) = ReviewUpdated (mk_review 1 2 0 7)
   \<and> fst (delete_review db_three 7 1) = ReviewDeleted"
  using non_owner_forbidden[of db_three 1 "mk_review 1 4 0 7" 8 "body_review 2"]
  by (simp add: db_three_def mk_review_def mk_book_def body_review_def Review_findById_def
      put_review_errors_def ratings_ok_def trim_classic isInt_def Let_def)

text \<open>
  The claim as stated has every update by a non-owner answered 403. User 8 is not the
  owner of review 1 and sends \<^verbatim>\<open>rating: 6\<close>: the validation chain runs before the
  handler looks the review up, and the answer is 400.
\<close>

theorem non_owner_invalid_counterexample:
  "Review_findById db_three 1 = Some (mk_review 1 4 0 7)
   \<and> put_review db_three 8 1 body_rating_six
       = (Errors [''Rating must be between 1 and 5''], db_three)
   \<and> status (fst (put_review db_three 8 1 body_rating_six)) = 400"
  by (simp add: put_review_def put_review_errors_def body_rating_six_def isInt_def
      db_three_def Review_findById_def mk_review_def)

section \<open>Partial update of a review\<close>

text \<open>
  Claim C8, as amended. Let the review \<open>rid\<close> exist with owner \<open>actor\<close>, let every
  stored review have a rating from 1 to 5 and let the body pass the validation chain. Then the update
  succeeds, and the stored review afterwards is the old one with the rating replaced by
  the provided rating, if one is provided, and the comment replaced by the provided
  comment with leading and trailing whitespace removed, if one is provided. A field
  that is left out keeps its value, and so do the review's id, book and user.
\<close>

theorem put_review_partial_update:
  assumes "Review_findById s rid = Some r" and "user r = actor"
    and "put_review_errors body = []" and "ratings_ok s"
  shows "let r' = r\<lparr>rating := (case body_rating body of None \<Rightarrow> rating r | Some x \<Rightarrow> x),
                     comment := (case body_comment body of None \<Rightarrow> comment r
                                 | Some c \<Rightarrow> trim c)\<rparr>
         in fst (put_review s actor rid body) = ReviewUpdated r'
            \<and> Review_findById (snd (put_review s actor rid body)) rid = Some r'
            \<and> review_id r' = review_id r \<and> book r' = book r \<and> user r' = user r"
  using assms by (rule put_review_owner)

theorem put_review_partial_update_witness:
  "fst (put_review db_three 7 1 body_padded)
     = ReviewUpdated \<lparr>review_id = 1, rating = 4, comment = ''Better on the second read'',
         book = 0, user = 7\<rparr>"
  using put_review_partial_update[of db_three 1 "mk_review 1 4 0 7" 7 body_padded]
  by (simp add: db_three_def mk_review_def mk_book_def body_padded_def Review_findById_def
      put_review_errors_def ratings_ok_def trim_padded trim_better Let_def)

text \<open>
  The claim as stated, that a provided field is changed to the provided value, fails
  for a comment with surrounding whitespace: the owner provides
  \<^verbatim>\<open>"  Better on the second read  "\<close> and the stored comment is
  \<^verbatim>\<open>"Better on the second read"\<close>.
\<close>

theorem put_review_trims_counterexample:
  "Review_findById (snd (put_review db_three 7 1 body_padded)) 1
     = Some \<lparr>review_id = 1, rating = 4, comment = ''Better on the second read'',
         book = 0, user = 7\<rparr>
   \<and> body_comment body_padded = Some ''  Better on the second read  ''"
  by (simp add: put_review_def put_review_errors_def body_padded_def trim_padded trim_idem
      db_three_def mk_review_def mk_book_def Review_findById_def Review_save_def
      reviewSchema_validate_def reviews_post_save trim_better Let_def snd_case_result)

section \<open>Pagination\<close>

text \<open>
  Claim C6, evaluated on the code. The store holds 25 books titled \<^verbatim>\<open>Dune\<close>, so
  25 records match the query \<^verbatim>\<open>dune\<close>. With page 1 and limit 10,
  \<^verbatim>\<open>GET /books\<close> returns 10 books and the block 1 of 3 pages, 25 in total,
  \<open>hasNext\<close> true and \<open>hasPrev\<close> false, as the claim says. \<^verbatim>\<open>GET /search\<close>
  returns no record and the block 1 of 0 pages, 0 in total, \<open>hasNext\<close> false: it
  counts the matches in the reviews collection, where the claim has 3 pages for the 25
  matching books and a next page.
\<close>

theorem get_search_counts_reviews:
  "length (filter (\<lambda>b. icontains ''dune'' (title b) \<or> icontains ''dune'' (author b))
             (books db_25)) = 25
   \<and> page_of (get_books icontains db_25 (list_query_of 1 10))
       = Some (10, \<lparr>currentPage = 1, totalPages = 3, totalCount = 25,
                    hasNext = True, hasPrev = False\<rparr>)
   \<and> page_of (get_search icontains db_25 (search_query_of ''dune'' 1 10))
       = Some (0, \<lparr>currentPage = 1, totalPages = 0, totalCount = 0,
                   hasNext = False, hasPrev = False\<rparr>)"
proof -
  have m: "icontains ''dune'' ''Dune''" by (simp add: icontains_def to_lower_def)
  have c: "\<lceil>(5 :: rat) / 2\<rceil> = 3" by (simp add: ceiling_eq_iff)
  have n: "Number_of_int 0 = Some 0" "Number_of_int 1 = Some 1" "Number_of_int 10 = Some 10"
    by (simp_all add: Number_of_int_def)
  have 1: "length (filter (\<lambda>b. icontains ''dune'' (title b) \<or> icontains ''dune'' (author b))
             (books db_25)) = 25"
    by (simp add: db_25_def mk_book_def m filter_map comp_def)
  have 2: "page_of (get_books icontains db_25 (list_query_of 1 10))
       = Some (10, \<lparr>currentPage = 1, totalPages = 3, totalCount = 25,
                    hasNext = True, hasPrev = False\<rparr>)"
    by (simp add: get_books_def list_query_of_def page_errors_def parseInt_or_def n
        find_page_def skip_of_def skip_limit_def paginate_def db_25_def c Let_def)
  have 3: "page_of (get_search icontains db_25 (search_query_of ''dune'' 1 10))
       = Some (0, \<lparr>currentPage = 1, totalPages = 0, totalCount = 0,
                   hasNext = False, hasPrev = False\<rparr>)"
    by (simp add: get_search_def search_query_of_def str_of_def trim_dune page_errors_def
        parseInt_or_def n find_page_def skip_of_def skip_limit_def paginate_def db_25_def
        Let_def)
  from 1 2 3 show ?thesis by simp
qed

section \<open>Search\<close>

text \<open>
  Claim C1, evaluated on the code. The store holds a book titled \<^verbatim>\<open>Dune II\<close>, a
  book by \<^verbatim>\<open>Duneworth\<close> and a book titled \<^verbatim>\<open>Atlas\<close>. The first two
  contain the query \<^verbatim>\<open>dune\<close>, yet the search for it answers with no record at
  all and a total of 0: the handler queries the reviews collection, whose documents have
  neither a title nor an author.
\<close>

theorem get_search_reads_reviews:
  "get_search icontains db_search query_dune
     = SearchResult ''dune'' []
         \<lparr>currentPage = 1, totalPages = 0, totalCount = 0, hasNext = False, hasPrev = False\<rparr>
   \<and> map title (filter (\<lambda>b. icontains ''dune'' (title b) \<or> icontains ''dune'' (author b))
              (books db_search)) = [''Dune II'', ''Sand'']"
  by (simp add: get_search_def query_dune_def str_of_def trim_dune page_errors_def
      parseInt_or_def review_path_def regex_path_def find_page_def skip_of_def
      Number_of_int_def skip_limit_def paginate_def db_search_def
      mk_book_def mk_review_def icontains_dune Let_def)

section \<open>Adding a book\<close>

text \<open>
  Claim C3, as amended. When the body passes the validation chain of
  \<^verbatim>\<open>POST /books\<close> and carries an isbn that a stored book already has, the
  request fails in \<^verbatim>\<open>save()\<close>, the handler answers with status 500 and the
  message \<^verbatim>\<open>Server error while adding book\<close>, and the store is unchanged, so no
  book is persisted.
\<close>

theorem duplicate_isbn_server_error:
  assumes "post_books_errors yr body = []" and "body_isbn body = Some i"
    and "list_ex (\<lambda>b. isbn b = Some i) (books s)"
  shows "post_books yr s actor body = (Error 500 ''Server error while adding book'', s)
       \<and> status (fst (post_books yr s actor body)) = 500"
proof -
  have m: "isbn_match i"
    using assms(1,2) by (auto simp: post_books_errors_def split: option.splits if_splits)
  obtain y where y: "body_publishedYear body = Some y"
    using assms(1) by (cases "body_publishedYear body") (auto simp: post_books_errors_def)
  have "post_books yr s actor body = (Error 500 ''Server error while adding book'', s)"
    using assms y isbn_match_trim[OF m]
    by (simp add: post_books_def Book_save_new_def Let_def)
  then show ?thesis by simp
qed

theorem duplicate_isbn_server_error_witness:
  "post_books 2025 db_isbn 2 (body_dune (Some ''0306406152'') Absent Absent)
     = (Error 500 ''Server error while adding book'', db_isbn)"
  using duplicate_isbn_server_error[of 2025 "body_dune (Some ''0306406152'') Absent Absent"
      "''0306406152''" db_isbn 2] post_books_errors_dune(2)[of Absent Absent]
  by (simp add: body_dune_fields db_isbn_def mk_book_def)

text \<open>
  The claim as stated has the duplicate answered with status 400. Here a book with
  isbn \<^verbatim>\<open>0306406152\<close> is stored, a valid body carries the same isbn, and the
  status is 500.
\<close>

theorem duplicate_isbn_counterexample:
  "map isbn (books db_isbn) = [Some ''0306406152'']
   \<and> body_isbn (body_dune (Some ''0306406152'') Absent Absent) = Some ''0306406152''
   \<and> status (fst (post_books 2025 db_isbn 2 (body_dune (Some ''0306406152'') Absent Absent))) = 500
   \<and> status (fst (post_books 2025 db_isbn 2 (body_dune (Some ''0306406152'') Absent Absent))) \<noteq> 400"
  by (simp add: post_books_def post_books_errors_dune Book_save_new_def bookSchema_validate_def
      isbn_match_example body_dune_fields str_of_def trim_fields
      db_isbn_def mk_book_def min_ok_def max_ok_def Let_def)

text \<open>
  Claim C4, evaluated on the code. A body that passes every validation and carries in
  addition \<^verbatim>\<open>averageRating: 4.5\<close> and \<^verbatim>\<open>totalReviews: 100\<close> creates a book
  with these two values, and \<^verbatim>\<open>GET /books/:id\<close> on the created book returns them,
  together with an empty list of reviews.
\<close>

theorem post_books_mass_assignment:
  "post_books_errors 2025 (body_dune None (Num (9 / 2)) (Num 100)) = []
   \<and> post_books 2025 empty_db 1 (body_dune None (Num (9 / 2)) (Num 100))
     = (BookCreated (mk_book 0 ''Dune'' ''Herbert'' None (9 / 2) 100),
        \<lparr>books = [mk_book 0 ''Dune'' ''Herbert'' None (9 / 2) 100], reviews = [], next_oid = 1\<rparr>)
   \<and> get_book_by_id
        (snd (post_books 2025 empty_db 1 (body_dune None (Num (9 / 2)) (Num 100)))) 0 None None
     = BookDetail (mk_book 0 ''Dune'' ''Herbert'' None (9 / 2) 100) []
         \<lparr>currentPage = 1, totalPages = 0, totalCount = 0, hasNext = False, hasPrev = False\<rparr>"
  by (simp add: post_books_def post_books_errors_dune Book_save_new_def bookSchema_validate_def
      body_dune_fields str_of_def trim_fields empty_db_def mk_book_def get_book_by_id_def
      Book_findById_def parseInt_or_def find_page_def skip_of_def Number_of_int_def
      skip_limit_def paginate_def min_ok_def max_ok_def Let_def)

section \<open>Deleting a review\<close>

text \<open>
  Claim C2, evaluated on the code. The scenario of the specification: a book is added
  and two users review it with ratings 4 and 2, which leaves the book with
  \<open>averageRating = 3\<close> and \<open>totalReviews = 2\<close>. The owner of the first review
  deletes it. The request succeeds and the review is gone, but the book still has
  \<open>averageRating = 3\<close> and \<open>totalReviews = 2\<close>; the aggregator, had it run, would
  have stored 2 and 1.
\<close>

theorem delete_review_keeps_aggregates:
  "step 2025 (step 2025 (step 2025 empty_db (AddBook 1 (body_dune None Absent Absent)))
      (SubmitReview 7 0 (body_review 4))) (SubmitReview 8 0 (body_review 2)) = db_two
   \<and> delete_review db_two 7 1 = (ReviewDeleted,
        \<lparr>books = [mk_book 0 ''Dune'' ''Herbert'' None 3 2],
         reviews = [mk_review 2 2 0 8], next_oid = 3\<rparr>)
   \<and> step 2025 (snd (delete_review db_two 7 1)) (Recompute 0)
     = \<lparr>books = [mk_book 0 ''Dune'' ''Herbert'' None 2 1],
        reviews = [mk_review 2 2 0 8], next_oid = 3\<rparr>"
  using db_two_scenario
  by (simp add: delete_review_def Review_findById_def Review_findByIdAndDelete_def db_two_def
      mk_book_def mk_review_def Book_findById_def updateAverageRating_def Review_aggregate_def
      Math_round_numeral min_ok_def max_ok_def Let_def)

end
